theory Spec2Isabelle
  imports Main "HOL-Library.Char_ord" "HOL-Library.List_Lexorder"
begin

section \<open>Python values\<close>

text \<open>
  The validator reads its configuration with \<^verbatim>\<open>json.load\<close> and its rows from the database
  driver, so the values it handles are Python objects.  The model covers \<^verbatim>\<open>None\<close>, booleans,
  unbounded integers, strings, lists (JSON arrays, database arrays) and tuples (what
  \<^verbatim>\<open>tuple(row)\<close> builds).  Floating-point numbers and dictionaries used as values are outside
  the model.  A string is a list of \<^typ>\<open>char\<close>, one per code point, so the code points
  below 256 are covered.
\<close>

datatype pyval =
    PNone
  | PBool bool
  | PInt int
  | PStr string
  | PList "pyval list"
  | PTuple "pyval list"

text \<open>Exceptions that are subclasses of \<^verbatim>\<open>Exception\<close>, the ones \<^verbatim>\<open>except Exception\<close> catches.\<close>

datatype exn =
    TypeError
  | KeyError string
  | IndexError
  | ProgrammingError
  | DatabaseError string

text \<open>How a run of the process ends early: \<^verbatim>\<open>sys.exit(n)\<close>, or an exception nobody caught.\<close>

datatype abort = Exit int | Uncaught exn

type_synonym pydict = "(string \<times> pyval) list"

text \<open>\<^verbatim>\<open>d.get(k, default)\<close>, \<^verbatim>\<open>d.get(k)\<close> and \<^verbatim>\<open>d[k]\<close> on a dictionary with string keys.\<close>

definition dict_get :: "pydict \<Rightarrow> string \<Rightarrow> pyval \<Rightarrow> pyval" where
  "dict_get d k dflt = (case map_of d k of None \<Rightarrow> dflt | Some v \<Rightarrow> v)"

definition dict_get_none :: "pydict \<Rightarrow> string \<Rightarrow> pyval" where
  "dict_get_none d k = dict_get d k PNone"

definition dict_index :: "pydict \<Rightarrow> string \<Rightarrow> exn + pyval" where
  "dict_index d k = (case map_of d k of None \<Rightarrow> Inl (KeyError k) | Some v \<Rightarrow> Inr v)"

text \<open>Truth value of an object, as \<^verbatim>\<open>if x:\<close> and \<^verbatim>\<open>if not x:\<close> test it.\<close>

fun py_truthy :: "pyval \<Rightarrow> bool" where
  "py_truthy PNone = False"
| "py_truthy (PBool b) = b"
| "py_truthy (PInt i) = (i \<noteq> 0)"
| "py_truthy (PStr s) = (s \<noteq> [])"
| "py_truthy (PList xs) = (xs \<noteq> [])"
| "py_truthy (PTuple xs) = (xs \<noteq> [])"

text \<open>
  Python's \<^verbatim>\<open>==\<close>: \<^verbatim>\<open>bool\<close> is a subclass of \<^verbatim>\<open>int\<close>, so \<^verbatim>\<open>True == 1\<close>; sequences are equal when
  they have the same type and equal elements; values of unrelated types are unequal.
  \<open>py_norm\<close> maps every value to the representative of its equality class.
\<close>

fun py_norm :: "pyval \<Rightarrow> pyval" where
  "py_norm PNone = PNone"
| "py_norm (PBool b) = PInt (if b then 1 else 0)"
| "py_norm (PInt i) = PInt i"
| "py_norm (PStr s) = PStr s"
| "py_norm (PList xs) = PList (map py_norm xs)"
| "py_norm (PTuple xs) = PTuple (map py_norm xs)"

definition py_eq :: "pyval \<Rightarrow> pyval \<Rightarrow> bool" where
  "py_eq x y = (py_norm x = py_norm y)"

text \<open>\<^verbatim>\<open>hash(x)\<close> succeeds on everything but a list, and on a tuple when it does on every element.\<close>

fun hashable :: "pyval \<Rightarrow> bool" where
  "hashable (PList xs) = False"
| "hashable (PTuple xs) = list_all hashable xs"
| "hashable v = True"

text \<open>The numeric value of an \<^verbatim>\<open>int\<close> or a \<^verbatim>\<open>bool\<close>.\<close>

fun py_num :: "pyval \<Rightarrow> int option" where
  "py_num (PInt i) = Some i"
| "py_num (PBool b) = Some (if b then 1 else 0)"
| "py_num v = None"

datatype cmp = LT | LE | GT | GE

definition cmp_holds :: "cmp \<Rightarrow> 'a::linorder \<Rightarrow> 'a \<Rightarrow> bool" where
  "cmp_holds c x y = (case c of LT \<Rightarrow> x < y | LE \<Rightarrow> x \<le> y | GT \<Rightarrow> x > y | GE \<Rightarrow> x \<ge> y)"

text \<open>
  Python's ordering comparisons: numbers by value, strings lexicographically by code point,
  two lists (or two tuples) by their first pair of unequal elements and else by length;
  anything else raises \<^verbatim>\<open>TypeError\<close>.
\<close>

fun py_ord :: "cmp \<Rightarrow> pyval \<Rightarrow> pyval \<Rightarrow> exn + bool"
  and py_ord_seq :: "cmp \<Rightarrow> pyval list \<Rightarrow> pyval list \<Rightarrow> exn + bool" where
  "py_ord c (PStr s) (PStr t) = Inr (cmp_holds c s t)"
| "py_ord c (PList xs) (PList ys) = py_ord_seq c xs ys"
| "py_ord c (PTuple xs) (PTuple ys) = py_ord_seq c xs ys"
| "py_ord c x y =
     (case (py_num x, py_num y) of
        (Some a, Some b) \<Rightarrow> Inr (cmp_holds c a b)
      | _ \<Rightarrow> Inl TypeError)"
| "py_ord_seq c (x # xs) (y # ys) =
     (if py_eq x y then py_ord_seq c xs ys else py_ord c x y)"
| "py_ord_seq c xs ys = Inr (cmp_holds c (length xs) (length ys))"

text \<open>Iterating over an object: \<^verbatim>\<open>for x in v\<close>, \<^verbatim>\<open>tuple(v)\<close>.\<close>

fun py_iter :: "pyval \<Rightarrow> exn + pyval list" where
  "py_iter (PList xs) = Inr xs"
| "py_iter (PTuple xs) = Inr xs"
| "py_iter (PStr s) = Inr (map (\<lambda>c. PStr [c]) s)"
| "py_iter v = Inl TypeError"

definition py_tuple :: "pyval \<Rightarrow> exn + pyval" where
  "py_tuple v = (case py_iter v of Inl e \<Rightarrow> Inl e | Inr xs \<Rightarrow> Inr (PTuple xs))"


definition index0 :: "pyval list \<Rightarrow> exn + pyval" where
  \<comment> \<open>\<^verbatim>\<open>row[0]\<close> on a tuple\<close>
  "index0 row = (case row of [] \<Rightarrow> Inl IndexError | v # _ \<Rightarrow> Inr v)"

subsection \<open>Sets and dictionaries\<close>

text \<open>
  A Python set is modelled by the list of its members in insertion order, no two of them
  equal under \<open>py_eq\<close>.  Adding a member or testing membership hashes the object first,
  which raises \<^verbatim>\<open>TypeError\<close> on an unhashable one; adding an object equal to a member
  keeps the member.
\<close>

definition set_has :: "pyval list \<Rightarrow> pyval \<Rightarrow> bool" where
  "set_has S v = list_ex (\<lambda>u. py_eq u v) S"

definition set_add :: "pyval list \<Rightarrow> pyval \<Rightarrow> exn + pyval list" where
  "set_add S v =
     (if hashable v then Inr (if set_has S v then S else S @ [v]) else Inl TypeError)"

text \<open>The set comprehension \<^verbatim>\<open>{f(x) for x in xs}\<close>, started from the set \<open>S\<close>.\<close>

fun set_comp :: "('a \<Rightarrow> exn + pyval) \<Rightarrow> 'a list \<Rightarrow> pyval list \<Rightarrow> exn + pyval list" where
  "set_comp f [] S = Inr S"
| "set_comp f (x # xs) S =
     (case f x of
        Inl e \<Rightarrow> Inl e
      | Inr v \<Rightarrow> (case set_add S v of Inl e \<Rightarrow> Inl e | Inr S' \<Rightarrow> set_comp f xs S'))"

text \<open>The list comprehension \<^verbatim>\<open>[t for t in ts if t not in S]\<close>.\<close>

fun filter_not_in :: "pyval list \<Rightarrow> pyval list \<Rightarrow> exn + pyval list" where
  "filter_not_in [] S = Inr []"
| "filter_not_in (t # ts) S =
     (if \<not> hashable t then Inl TypeError
      else (case filter_not_in ts S of
              Inl e \<Rightarrow> Inl e
            | Inr ms \<Rightarrow> Inr (if set_has S t then ms else t # ms)))"

text \<open>The set difference \<^verbatim>\<open>E - A\<close>.\<close>

definition set_minus :: "pyval list \<Rightarrow> pyval list \<Rightarrow> pyval list" where
  "set_minus E A = filter (\<lambda>e. \<not> set_has A e) E"

text \<open>\<^verbatim>\<open>dict(pairs)\<close>: a later pair with a key already present replaces its value in place.\<close>

fun dict_put :: "('k \<times> 'v) list \<Rightarrow> 'k \<Rightarrow> 'v \<Rightarrow> ('k \<times> 'v) list" where
  "dict_put [] k v = [(k, v)]"
| "dict_put ((k', v') # d) k v =
     (if k' = k then (k, v) # d else (k', v') # dict_put d k v)"

definition dict_of_pairs :: "('k \<times> 'v) list \<Rightarrow> ('k \<times> 'v) list" where
  "dict_of_pairs ps = foldl (\<lambda>d (k, v). dict_put d k v) [] ps"

section \<open>The database driver and the log\<close>

text \<open>
  The statements the program sends: a query taken from the configuration, the catalog query
  of \<^verbatim>\<open>run_table_exists\<close> (\<^verbatim>\<open>SELECT table_name FROM information_schema.tables WHERE
  table_schema = %s AND table_type = 'BASE TABLE'\<close>), and \<^verbatim>\<open>SET search_path TO {schema}\<close>.
\<close>

datatype query = Q pyval | CatalogTables | SetSearchPath pyval

text \<open>What a cursor holds after \<^verbatim>\<open>execute\<close>: no result set, or column names and rows.\<close>

datatype qresult = NoResult | ResultSet "string list" "pyval list list"

text \<open>
  The driver (\<^verbatim>\<open>psycopg\<close>) and the servers behind it are a parameter: \<open>'s\<close> is the state of
  that outside world, and connecting, executing a statement and closing are functions on it.
  Connecting and executing may raise.
\<close>

record 's driver =
  db_connect :: "'s \<Rightarrow> pyval list \<Rightarrow> (exn + unit) \<times> 's"
  db_execute :: "'s \<Rightarrow> query \<Rightarrow> pyval list \<Rightarrow> (exn + qresult) \<times> 's"
  db_close :: "'s \<Rightarrow> 's"

datatype call = Connect "pyval list" | Execute query "pyval list" | Close

datatype level = Info | Error

text \<open>The messages the program logs, one constructor per \<^verbatim>\<open>logging\<close> call of the source.\<close>

datatype msg =
    Connected
  | SearchPathSet pyval
  | FailedToConnect exn
  | Banner
  | RunningPrinter pyval
  | QueryLine pyval
  | RowsReturned nat
  | RowDict "(string \<times> pyval) list"
  | PrinterFailed exn
  | RunningTableExists pyval
  | AllTablesExist
  | MissingTables "pyval list"
  | TableExistsFailed exn
  | RunningCountCheck pyval
  | OperatorValue pyval pyval
  | UnsupportedOperator pyval
  | NoRowsReturned
  | CheckPassed pyval pyval pyval
  | CheckFailed pyval pyval pyval
  | CountCheckFailed exn
  | RunningIncludesCheck pyval
  | ExpectedValues pyval
  | AllExpectedPresent
  | MissingValues "pyval set"
  | IncludesCheckFailed exn
  | ConnectionClosed

text \<open>
  The state a run threads through: the outside world, the calls made to the driver so far
  and the log written so far.
\<close>

record 's world =
  ext :: 's
  calls :: "call list"
  log :: "(level \<times> msg) list"

definition info :: "msg \<Rightarrow> 's world \<Rightarrow> 's world" where
  "info m w = w\<lparr>log := log w @ [(Info, m)]\<rparr>"

definition error :: "msg \<Rightarrow> 's world \<Rightarrow> 's world" where
  "error m w = w\<lparr>log := log w @ [(Error, m)]\<rparr>"

definition cursor_execute ::
  "'s driver \<Rightarrow> query \<Rightarrow> pyval list \<Rightarrow> 's world \<Rightarrow> (exn + qresult) \<times> 's world" where
  "cursor_execute D q ps w =
     (case db_execute D (ext w) q ps of
        (r, s') \<Rightarrow> (r, w\<lparr>ext := s', calls := calls w @ [Execute q ps]\<rparr>))"

text \<open>Fetching from a cursor that holds no result set raises.\<close>

definition fetchall :: "qresult \<Rightarrow> exn + pyval list list" where
  "fetchall res = (case res of NoResult \<Rightarrow> Inl ProgrammingError | ResultSet cols rows \<Rightarrow> Inr rows)"

definition fetchone :: "qresult \<Rightarrow> exn + pyval list option" where
  "fetchone res =
     (case res of
        NoResult \<Rightarrow> Inl ProgrammingError
      | ResultSet cols [] \<Rightarrow> Inr None
      | ResultSet cols (row # rows) \<Rightarrow> Inr (Some row))"

definition description_names :: "qresult \<Rightarrow> exn + string list" where
  \<comment> \<open>\<^verbatim>\<open>[desc.name for desc in cursor.description]\<close>; the description is \<^verbatim>\<open>None\<close> without a result set\<close>
  "description_names res =
     (case res of NoResult \<Rightarrow> Inl TypeError | ResultSet cols rows \<Rightarrow> Inr cols)"


section \<open>The operator registry\<close>

definition operator_eq :: "pyval \<Rightarrow> pyval \<Rightarrow> exn + bool" where
  "operator_eq a b = Inr (py_eq a b)"

definition operator_ne :: "pyval \<Rightarrow> pyval \<Rightarrow> exn + bool" where
  "operator_ne a b = Inr (\<not> py_eq a b)"

definition OPERATORS :: "(string \<times> (pyval \<Rightarrow> pyval \<Rightarrow> exn + bool)) list" where
  "OPERATORS =
     [(''='', operator_eq),
      (''!='', operator_ne),
      (''>'', py_ord GT),
      (''>='', py_ord GE),
      (''<'', py_ord LT),
      (''<='', py_ord LE)]"

text \<open>
  \<^verbatim>\<open>OPERATORS.get(op_str)\<close>: the key is hashed first, so an unhashable key raises; a key that
  is not a string equals none of the registry's keys.
\<close>

definition operators_get :: "pyval \<Rightarrow> exn + (pyval \<Rightarrow> pyval \<Rightarrow> exn + bool) option" where
  "operators_get op_str =
     (if \<not> hashable op_str then Inl TypeError
      else (case op_str of PStr s \<Rightarrow> Inr (map_of OPERATORS s) | _ \<Rightarrow> Inr None))"

section \<open>The check executors\<close>

subsection \<open>\<^verbatim>\<open>create_connection\<close>\<close>

text \<open>
  The arguments of \<^verbatim>\<open>psycopg.connect\<close>, each read with \<^verbatim>\<open>conn_config[key]\<close> in the order
  host, port, dbname, user, password; the first missing key raises \<^verbatim>\<open>KeyError\<close>.
\<close>

fun dict_index_all :: "pydict \<Rightarrow> string list \<Rightarrow> exn + pyval list" where
  "dict_index_all d [] = Inr []"
| "dict_index_all d (k # ks) =
     (case dict_index d k of
        Inl e \<Rightarrow> Inl e
      | Inr v \<Rightarrow> (case dict_index_all d ks of Inl e \<Rightarrow> Inl e | Inr vs \<Rightarrow> Inr (v # vs)))"

definition conn_args :: "pydict \<Rightarrow> exn + pyval list" where
  "conn_args conn_config =
     dict_index_all conn_config [''host'', ''port'', ''dbname'', ''user'', ''password'']"

text \<open>The body of the \<^verbatim>\<open>try\<close> block.\<close>

definition connect_body :: "'s driver \<Rightarrow> pydict \<Rightarrow> 's world \<Rightarrow> (exn + unit) \<times> 's world" where
  "connect_body D conn_config w =
     (case conn_args conn_config of
        Inl e \<Rightarrow> (Inl e, w)
      | Inr args \<Rightarrow>
          (case db_connect D (ext w) args of
             (Inl e, s1) \<Rightarrow> (Inl e, w\<lparr>ext := s1, calls := calls w @ [Connect args]\<rparr>)
           | (Inr u, s1) \<Rightarrow>
               (let w1 = info Connected (w\<lparr>ext := s1, calls := calls w @ [Connect args]\<rparr>);
                    schema = dict_get_none conn_config ''schema''
                in if py_truthy schema
                   then (case cursor_execute D (SetSearchPath schema) [] w1 of
                           (Inl e, w2) \<Rightarrow> (Inl e, w2)
                         | (Inr r, w2) \<Rightarrow> (Inr (), info (SearchPathSet schema) w2))
                   else (Inr (), w1))))"

text \<open>Any exception of the body is logged and followed by \<^verbatim>\<open>sys.exit(1)\<close>.\<close>

definition create_connection :: "'s driver \<Rightarrow> pydict \<Rightarrow> 's world \<Rightarrow> (abort + unit) \<times> 's world" where
  "create_connection D conn_config w =
     (case connect_body D conn_config w of
        (Inl e, w1) \<Rightarrow> (Inl (Exit 1), error (FailedToConnect e) w1)
      | (Inr u, w1) \<Rightarrow> (Inr (), w1))"

definition close_connection :: "'s driver \<Rightarrow> 's world \<Rightarrow> 's world" where
  \<comment> \<open>leaving the two \<^verbatim>\<open>with\<close> blocks\<close>
  "close_connection D w = w\<lparr>ext := db_close D (ext w), calls := calls w @ [Close]\<rparr>"

subsection \<open>\<^verbatim>\<open>run_printer\<close>\<close>

definition log_rows :: "string list \<Rightarrow> pyval list list \<Rightarrow> 's world \<Rightarrow> 's world" where
  "log_rows columns rows w = fold (\<lambda>row. info (RowDict (dict_of_pairs (zip columns row)))) rows w"

definition run_printer :: "'s driver \<Rightarrow> pyval \<Rightarrow> pyval \<Rightarrow> 's world \<Rightarrow> 's world" where
  "run_printer D query description w0 =
     (let w1 = info Banner w0;
          w2 = info (RunningPrinter description) w1;
          w3 = info (QueryLine query) w2
      in case cursor_execute D (Q query) [] w3 of
           (Inl e, w4) \<Rightarrow> error (PrinterFailed e) w4
         | (Inr res, w4) \<Rightarrow>
             (case fetchall res of
                Inl e \<Rightarrow> error (PrinterFailed e) w4
              | Inr rows \<Rightarrow>
                  (case description_names res of
                     Inl e \<Rightarrow> error (PrinterFailed e) w4
                   | Inr columns \<Rightarrow> log_rows columns rows (info (RowsReturned (length rows)) w4))))"

subsection \<open>\<^verbatim>\<open>run_table_exists\<close>\<close>

text \<open>
  \<^verbatim>\<open>existing_tables = {row[0] for row in cursor.fetchall()}\<close> and
  \<^verbatim>\<open>missing_tables = [t for t in required_tables if t not in existing_tables]\<close>.
\<close>

definition missing_tables :: "pyval list list \<Rightarrow> pyval \<Rightarrow> exn + pyval list" where
  "missing_tables rows required_tables =
     (case set_comp index0 rows [] of
        Inl e \<Rightarrow> Inl e
      | Inr existing_tables \<Rightarrow>
          (case py_iter required_tables of
             Inl e \<Rightarrow> Inl e
           | Inr ts \<Rightarrow> filter_not_in ts existing_tables))"

definition run_table_exists :: "'s driver \<Rightarrow> pyval \<Rightarrow> pyval \<Rightarrow> 's world \<Rightarrow> bool \<times> 's world" where
  "run_table_exists D required_tables schema w0 =
     (let w1 = info Banner w0;
          w2 = info (RunningTableExists required_tables) w1
      in case cursor_execute D CatalogTables [schema] w2 of
           (Inl e, w3) \<Rightarrow> (False, error (TableExistsFailed e) w3)
         | (Inr res, w3) \<Rightarrow>
             (case fetchall res of
                Inl e \<Rightarrow> (False, error (TableExistsFailed e) w3)
              | Inr rows \<Rightarrow>
                  (case missing_tables rows required_tables of
                     Inl e \<Rightarrow> (False, error (TableExistsFailed e) w3)
                   | Inr missing \<Rightarrow>
                       if missing = [] then (True, info AllTablesExist w3)
                       else (False, error (MissingTables missing) w3))))"

subsection \<open>\<^verbatim>\<open>run_count_check\<close>\<close>

text \<open>
  The operator is looked up before the \<^verbatim>\<open>try\<close> block, so an exception of the lookup reaches
  the caller; every exception of the block is caught and makes the check fail.
\<close>

definition run_count_check ::
  "'s driver \<Rightarrow> pyval \<Rightarrow> pyval \<Rightarrow> pyval \<Rightarrow> pyval \<Rightarrow> 's world \<Rightarrow> (exn + bool) \<times> 's world" where
  "run_count_check D query val op_str description w0 =
     (let w1 = info Banner w0;
          w2 = info (RunningCountCheck description) w1;
          w3 = info (QueryLine query) w2;
          w4 = info (OperatorValue op_str val) w3
      in case operators_get op_str of
           Inl e \<Rightarrow> (Inl e, w4)
         | Inr None \<Rightarrow> (Inr False, error (UnsupportedOperator op_str) w4)
         | Inr (Some op_func) \<Rightarrow>
             (case cursor_execute D (Q query) [] w4 of
                (Inl e, w5) \<Rightarrow> (Inr False, error (CountCheckFailed e) w5)
              | (Inr res, w5) \<Rightarrow>
                  (case fetchone res of
                     Inl e \<Rightarrow> (Inr False, error (CountCheckFailed e) w5)
                   | Inr None \<Rightarrow> (Inr False, error NoRowsReturned w5)
                   | Inr (Some result) \<Rightarrow>
                       (case index0 result of
                          Inl e \<Rightarrow> (Inr False, error (CountCheckFailed e) w5)
                        | Inr actual_value \<Rightarrow>
                            (case op_func actual_value val of
                               Inl e \<Rightarrow> (Inr False, error (CountCheckFailed e) w5)
                             | Inr b \<Rightarrow>
                                 if b then (Inr True, info (CheckPassed actual_value op_str val) w5)
                                 else (Inr False, error (CheckFailed actual_value op_str val) w5))))))"

subsection \<open>\<^verbatim>\<open>run_includes_check\<close>\<close>

text \<open>
  \<^verbatim>\<open>actual_set = {tuple(row) for row in actual_rows}\<close>,
  \<^verbatim>\<open>expected_set = {tuple(row) for row in expected_values}\<close> and
  \<^verbatim>\<open>missing = expected_set - actual_set\<close>.
\<close>

definition missing_values :: "pyval list list \<Rightarrow> pyval \<Rightarrow> exn + pyval list" where
  "missing_values actual_rows expected_values =
     (case set_comp (\<lambda>row. Inr (PTuple row)) actual_rows [] of
        Inl e \<Rightarrow> Inl e
      | Inr actual_set \<Rightarrow>
          (case py_iter expected_values of
             Inl e \<Rightarrow> Inl e
           | Inr rows \<Rightarrow>
               (case set_comp py_tuple rows [] of
                  Inl e \<Rightarrow> Inl e
                | Inr expected_set \<Rightarrow> Inr (set_minus expected_set actual_set))))"

definition run_includes_check ::
  "'s driver \<Rightarrow> pyval \<Rightarrow> pyval \<Rightarrow> pyval \<Rightarrow> 's world \<Rightarrow> bool \<times> 's world" where
  "run_includes_check D query expected_values description w0 =
     (let w1 = info Banner w0;
          w2 = info (RunningIncludesCheck description) w1;
          w3 = info (QueryLine query) w2;
          w4 = info (ExpectedValues expected_values) w3
      in case cursor_execute D (Q query) [] w4 of
           (Inl e, w5) \<Rightarrow> (False, error (IncludesCheckFailed e) w5)
         | (Inr res, w5) \<Rightarrow>
             (case fetchall res of
                Inl e \<Rightarrow> (False, error (IncludesCheckFailed e) w5)
              | Inr actual_rows \<Rightarrow>
                  (case missing_values actual_rows expected_values of
                     Inl e \<Rightarrow> (False, error (IncludesCheckFailed e) w5)
                   | Inr missing \<Rightarrow>
                       if missing = [] then (True, info AllExpectedPresent w5)
                       else (False, error (MissingValues (set missing)) w5))))"

section \<open>The dispatcher and the run\<close>

text \<open>
  One iteration of the loop over \<^verbatim>\<open>validations\<close> in \<^verbatim>\<open>main\<close>: the \<^verbatim>\<open>if\<close>/\<^verbatim>\<open>elif\<close> chain on the
  check's type.  The chain has no \<^verbatim>\<open>else\<close>.  The results the executors return are dropped.
  \<^verbatim>\<open>validator["query"]\<close> of a PRINTER check raises \<^verbatim>\<open>KeyError\<close> when the key is missing.
\<close>

definition dispatch :: "'s driver \<Rightarrow> pydict \<Rightarrow> pydict \<Rightarrow> 's world \<Rightarrow> (exn + unit) \<times> 's world" where
  "dispatch D conn_config validator w =
     (let vtype = dict_get_none validator ''type'' in
      if py_eq vtype (PStr ''PRINTER'') then
        (case dict_index validator ''query'' of
           Inl e \<Rightarrow> (Inl e, w)
         | Inr query \<Rightarrow>
             (Inr (), run_printer D query
                        (dict_get validator ''description'' (PStr ''No description'')) w))
      else if py_eq vtype (PStr ''TABLE_EXISTS'') then
        (let schema = dict_get conn_config ''schema'' (PStr ''public'');
             required_tables = dict_get validator ''required_tables'' (PList [])
         in (Inr (), snd (run_table_exists D required_tables schema w)))
      else if py_eq vtype (PStr ''COUNT_CHECK'') then
        (case run_count_check D
                (dict_get_none validator ''query'')
                (dict_get_none validator ''value'')
                (dict_get_none validator ''operator'')
                (dict_get validator ''description'' (PStr ''No description'')) w of
           (Inl e, w') \<Rightarrow> (Inl e, w')
         | (Inr b, w') \<Rightarrow> (Inr (), w'))
      else if py_eq vtype (PStr ''INCLUDES_CHECK'') then
        (Inr (), snd (run_includes_check D
                        (dict_get_none validator ''query'')
                        (dict_get validator ''values'' (PList []))
                        (dict_get validator ''description'' (PStr ''No description'')) w))
      else (Inr (), w))"

text \<open>The loop \<^verbatim>\<open>for validator in validations\<close>: an exception that escapes a check ends it.\<close>

fun run_validations ::
  "'s driver \<Rightarrow> pydict \<Rightarrow> pydict list \<Rightarrow> 's world \<Rightarrow> (exn + unit) \<times> 's world" where
  "run_validations D conn_config [] w = (Inr (), w)"
| "run_validations D conn_config (validator # validations) w =
     (case dispatch D conn_config validator w of
        (Inl e, w') \<Rightarrow> (Inl e, w')
      | (Inr u, w') \<Rightarrow> run_validations D conn_config validations w')"

text \<open>
  A database entry of the configuration: \<^verbatim>\<open>db["connection"]\<close> and
  \<^verbatim>\<open>db.get("validation", [])\<close>.
\<close>

record database =
  connection :: pydict
  validation :: "pydict list"

text \<open>
  \<^verbatim>\<open>main\<close> from the loop over \<^verbatim>\<open>config.get("databases", [])\<close> on, the configuration already
  loaded.  The connection is closed when the \<^verbatim>\<open>with\<close> block is left, normally or by an
  exception; an exception that leaves it ends the process.
\<close>

fun main :: "'s driver \<Rightarrow> database list \<Rightarrow> 's world \<Rightarrow> (abort + unit) \<times> 's world" where
  "main D [] w = (Inr (), w)"
| "main D (db # dbs) w =
     (case create_connection D (connection db) w of
        (Inl a, w1) \<Rightarrow> (Inl a, w1)
      | (Inr u, w1) \<Rightarrow>
          (case run_validations D (connection db) (validation db) w1 of
             (Inl e, w2) \<Rightarrow> (Inl (Uncaught e), close_connection D w2)
           | (Inr u', w2) \<Rightarrow> main D dbs (info ConnectionClosed (close_connection D w2))))"


section \<open>Notions of the specification\<close>

text \<open>The operator symbols the specification lists as supported.\<close>

definition supported :: "string set" where
  "supported = {''='', ''!='', ''>'', ''>='', ''<'', ''<=''}"

text \<open>
  The mathematical relation an operator symbol names, on any linearly ordered type, as the
  specification's operator registry describes it.
\<close>

definition math_rel :: "string \<Rightarrow> 'a::linorder \<Rightarrow> 'a \<Rightarrow> bool" where
  "math_rel symb x y =
     (if symb = ''='' then x = y
      else if symb = ''!='' then x \<noteq> y
      else if symb = ''>'' then x > y
      else if symb = ''>='' then x \<ge> y
      else if symb = ''<'' then x < y
      else symb = ''<='' \<and> x \<le> y)"

text \<open>
  An expected tuple appears among the actual rows: some actual row, as a tuple, equals it
  (Python's equality of tuples).
\<close>

definition row_present :: "pyval list set \<Rightarrow> pyval list \<Rightarrow> bool" where
  "row_present A e = (\<exists>a\<in>A. py_eq (PTuple e) (PTuple a))"

text \<open>The check kinds the specification knows.\<close>

definition known_kinds :: "string set" where
  "known_kinds = {''PRINTER'', ''TABLE_EXISTS'', ''COUNT_CHECK'', ''INCLUDES_CHECK''}"


text \<open>
  Each executor starts by logging a line that names the check kind ("Running PRINTER: ...",
  "Running TABLE_EXISTS check for tables: ...", and so on).  \<open>started\<close> reads these lines off the
  log, in order: the checks that were executed.  \<open>announcement\<close> is the line a check spec is
  logged with.
\<close>

fun is_start :: "msg \<Rightarrow> bool" where
  "is_start (RunningPrinter d) = True"
| "is_start (RunningTableExists r) = True"
| "is_start (RunningCountCheck d) = True"
| "is_start (RunningIncludesCheck d) = True"
| "is_start m = False"

definition started :: "'s world \<Rightarrow> msg list" where
  "started w = filter is_start (map snd (log w))"




section \<open>Drivers for concrete runs\<close>

text \<open>
  A driver whose connections always succeed and whose statements all have the same outcome;
  its state counts the statements executed.
\<close>

definition const_driver :: "(exn + qresult) \<Rightarrow> nat driver" where
  "const_driver r =
     \<lparr>db_connect = (\<lambda>s args. (Inr (), s)),
      db_execute = (\<lambda>s q ps. (r, Suc s)),
      db_close = (\<lambda>s. s)\<rparr>"

definition world0 :: "nat world" where
  "world0 = \<lparr>ext = 0, calls = [], log = []\<rparr>"

text \<open>
  A driver that refuses connections to the host \<^verbatim>\<open>down.example\<close> and accepts all others;
  every statement returns one row holding the number 1.
\<close>

definition down_driver :: "nat driver" where
  "down_driver =
     \<lparr>db_connect = (\<lambda>s args.
        (case args of
           host # rest \<Rightarrow> if host = PStr ''down.example'' then Inl (DatabaseError ''connection refused'') else Inr ()
         | [] \<Rightarrow> Inr (), Suc s)),
      db_execute = (\<lambda>s q ps. (Inr (ResultSet [''n''] [[PInt 1]]), Suc s)),
      db_close = (\<lambda>s. s)\<rparr>"

text \<open>A connection entry with the five keys \<^verbatim>\<open>create_connection\<close> reads, and a check.\<close>

definition conn_to :: "string \<Rightarrow> pydict" where
  "conn_to host =
     [(''host'', PStr host), (''port'', PInt 5432), (''dbname'', PStr ''app''),
      (''user'', PStr ''validator''), (''password'', PStr ''secret'')]"

definition count_rows :: pydict where
  "count_rows =
     [(''type'', PStr ''COUNT_CHECK''), (''query'', PStr ''SELECT count(*) FROM t''),
      (''operator'', PStr ''>=''), (''value'', PInt 1)]"

definition db_on :: "string \<Rightarrow> database" where
  "db_on host = \<lparr>connection = conn_to host, validation = [count_rows]\<rparr>"


section \<open>Basic facts\<close>

lemma py_eq_num: "py_num x = Some a \<Longrightarrow> py_num y = Some b \<Longrightarrow> py_eq x y \<longleftrightarrow> a = b"
  by (cases x; cases y) (auto simp: py_eq_def)

lemma py_ord_num: "py_num x = Some a \<Longrightarrow> py_num y = Some b \<Longrightarrow> py_ord c x y = Inr (cmp_holds c a b)"
  by (cases x; cases y) auto

lemma map_of_OPERATORS_supported: "map_of OPERATORS s = None \<longleftrightarrow> s \<notin> supported"
  by (simp add: OPERATORS_def supported_def)

lemma operators_get_unsupported:
  assumes "hashable op_str" and "op_str \<notin> PStr ` supported"
  shows "operators_get op_str = Inr None"
  using assms by (cases op_str) (auto simp: operators_get_def map_of_OPERATORS_supported)

lemma operators_get_cases:
  "operators_get (PStr ''='') = Inr (Some operator_eq)"
  "operators_get (PStr ''!='') = Inr (Some operator_ne)"
  "operators_get (PStr ''>'') = Inr (Some (py_ord GT))"
  "operators_get (PStr ''>='') = Inr (Some (py_ord GE))"
  "operators_get (PStr ''<'') = Inr (Some (py_ord LT))"
  "operators_get (PStr ''<='') = Inr (Some (py_ord LE))"
  by (simp_all add: operators_get_def OPERATORS_def)

lemma math_rel_cases:
  "math_rel ''='' x y = (x = y)"
  "math_rel ''!='' x y = (x \<noteq> y)"
  "math_rel ''>'' x y = (x > y)"
  "math_rel ''>='' x y = (x \<ge> y)"
  "math_rel ''<'' x y = (x < y)"
  "math_rel ''<='' x y = (x \<le> y)"
  by (simp_all add: math_rel_def)


lemma world_simps [simp]:
  "ext (info m w) = ext w" "calls (info m w) = calls w" "log (info m w) = log w @ [(Info, m)]"
  "ext (error m w) = ext w" "calls (error m w) = calls w" "log (error m w) = log w @ [(Error, m)]"
  by (simp_all add: info_def error_def)

lemma operators_get_supported:
  assumes "symb \<in> supported"
  shows "\<exists>f. operators_get (PStr symb) = Inr (Some f) \<and>
     (\<forall>x y a b. py_num x = Some a \<longrightarrow> py_num y = Some b \<longrightarrow> f x y = Inr (math_rel symb a b)) \<and>
     (\<forall>s t. f (PStr s) (PStr t) = Inr (math_rel symb s t))"
proof -
  from assms consider "symb = ''=''" | "symb = ''!=''" | "symb = ''>''" | "symb = ''>=''"
    | "symb = ''<''" | "symb = ''<=''"
    unfolding supported_def by blast
  then show ?thesis
  proof cases
    case 1
    then show ?thesis
      by (simp add: operators_get_cases math_rel_cases operator_eq_def py_eq_num) (simp add: py_eq_def)
  next
    case 2
    then show ?thesis
      by (simp add: operators_get_cases math_rel_cases operator_ne_def py_eq_num) (simp add: py_eq_def)
  next
    case 3
    then show ?thesis
      by (simp add: operators_get_cases math_rel_cases py_ord_num cmp_holds_def)
  next
    case 4
    then show ?thesis
      by (simp add: operators_get_cases math_rel_cases py_ord_num cmp_holds_def)
  next
    case 5
    then show ?thesis
      by (simp add: operators_get_cases math_rel_cases py_ord_num cmp_holds_def)
  next
    case 6
    then show ?thesis
      by (simp add: operators_get_cases math_rel_cases py_ord_num cmp_holds_def)
  qed
qed


subsection \<open>Equality, hashing and sets\<close>

lemma py_eq_refl [simp]: "py_eq x x"
  by (simp add: py_eq_def)

lemma py_eq_sym: "py_eq x y \<longleftrightarrow> py_eq y x"
  by (auto simp: py_eq_def)

lemma py_eq_trans: "py_eq x y \<Longrightarrow> py_eq y z \<Longrightarrow> py_eq x z"
  by (simp add: py_eq_def)

lemma py_eq_PStr: "py_eq v (PStr s) \<longleftrightarrow> v = PStr s"
  by (cases v) (auto simp: py_eq_def)

lemma py_eq_PStr_left: "py_eq (PStr s) v \<longleftrightarrow> v = PStr s"
  by (cases v) (auto simp: py_eq_def)

lemma hashable_py_norm: "hashable (py_norm x) = hashable x"
  by (induction x) (simp_all add: list_all_iff)

lemma py_eq_hashable: "py_eq x y \<Longrightarrow> hashable x = hashable y"
  by (metis hashable_py_norm py_eq_def)

lemma set_has_iff: "set_has S v \<longleftrightarrow> (\<exists>u\<in>set S. py_eq u v)"
  by (simp add: set_has_def list_ex_iff)

lemma set_comp_ok:
  assumes "\<forall>x\<in>set xs. \<exists>v. f x = Inr v \<and> hashable v"
  shows "\<exists>S'. set_comp f xs S = Inr S' \<and>
           (\<forall>v. set_has S' v \<longleftrightarrow> set_has S v \<or> (\<exists>x\<in>set xs. \<exists>u. f x = Inr u \<and> py_eq u v)) \<and>
           set S' \<subseteq> set S \<union> {u. \<exists>x\<in>set xs. f x = Inr u}"
  using assms
proof (induction xs arbitrary: S)
  case Nil
  then show ?case by simp
next
  case (Cons x xs)
  from Cons.prems obtain v where v: "f x = Inr v" "hashable v" by auto
  let ?S1 = "if set_has S v then S else S @ [v]"
  have add: "set_add S v = Inr ?S1"
    using v by (simp add: set_add_def)
  have has1: "\<And>u. set_has ?S1 u \<longleftrightarrow> set_has S u \<or> py_eq v u"
    by (auto simp: set_has_iff intro: py_eq_trans)
  have sub1: "set ?S1 \<subseteq> set S \<union> {v}" by auto
  from Cons.prems have "\<forall>y\<in>set xs. \<exists>v. f y = Inr v \<and> hashable v" by simp
  from Cons.IH [OF this, of ?S1] obtain S' where S': "set_comp f xs ?S1 = Inr S'"
    and has': "\<And>u. set_has S' u \<longleftrightarrow> set_has ?S1 u \<or> (\<exists>y\<in>set xs. \<exists>t. f y = Inr t \<and> py_eq t u)"
    and sub': "set S' \<subseteq> set ?S1 \<union> {u. \<exists>y\<in>set xs. f y = Inr u}"
    by blast
  have "set_comp f (x # xs) S = Inr S'"
    using v add S' by simp
  moreover have "\<forall>u. set_has S' u \<longleftrightarrow> set_has S u \<or> (\<exists>y\<in>set (x # xs). \<exists>t. f y = Inr t \<and> py_eq t u)"
    using has' has1 v by auto
  moreover have "set S' \<subseteq> set S \<union> {u. \<exists>y\<in>set (x # xs). f y = Inr u}"
    using sub' sub1 v by auto
  ultimately show ?case by blast
qed

lemma set_comp_unhashable:
  assumes "x \<in> set xs" and "f x = Inr v" and "\<not> hashable v"
  shows "\<exists>e. set_comp f xs S = Inl e"
  using assms
proof (induction xs arbitrary: S)
  case Nil
  then show ?case by simp
next
  case (Cons y ys)
  then show ?case
    by (auto simp: set_add_def split: sum.splits)
qed

lemma filter_not_in_ok:
  "\<forall>t\<in>set ts. hashable t \<Longrightarrow> filter_not_in ts S = Inr (filter (\<lambda>t. \<not> set_has S t) ts)"
  by (induction ts) auto

section \<open>The count check\<close>

text \<open>
  C4.  When the operator symbol is one of the six supported ones and the query returns at
  least one row with at least one column, \<^verbatim>\<open>run_count_check\<close> passes exactly when the relation
  the symbol names holds between the first column of the first row and the target value:
  for numbers (integers and booleans, compared by value) and for strings (compared
  lexicographically).
\<close>

theorem count_check_iff_relation:
  assumes symb: "symb \<in> supported"
    and exec: "db_execute D (ext w) (Q query) [] =
                 (Inr (ResultSet cols ((actual # rest) # others)), s')"
  shows "(\<forall>a b. py_num actual = Some a \<longrightarrow> py_num val = Some b \<longrightarrow>
            fst (run_count_check D query val (PStr symb) description w) = Inr (math_rel symb a b)) \<and>
         (\<forall>s t. actual = PStr s \<longrightarrow> val = PStr t \<longrightarrow>
            fst (run_count_check D query val (PStr symb) description w) = Inr (math_rel symb s t))"
proof -
  obtain f where f: "operators_get (PStr symb) = Inr (Some f)"
    and num: "\<And>x y a b. py_num x = Some a \<Longrightarrow> py_num y = Some b \<Longrightarrow> f x y = Inr (math_rel symb a b)"
    and str: "\<And>s t. f (PStr s) (PStr t) = Inr (math_rel symb s t)"
    using operators_get_supported [OF symb] by blast
  have run: "fst (run_count_check D query val (PStr symb) description w) =
      (case f actual val of Inl e \<Rightarrow> Inr False | Inr b \<Rightarrow> Inr b)"
    using exec f
    by (simp add: run_count_check_def cursor_execute_def fetchone_def index0_def Let_def
        split: sum.splits)
  show ?thesis
  proof (intro conjI allI impI)
    fix a b
    assume "py_num actual = Some a" and "py_num val = Some b"
    then show "fst (run_count_check D query val (PStr symb) description w) = Inr (math_rel symb a b)"
      by (simp add: run num)
  next
    fix s t
    assume "actual = PStr s" and "val = PStr t"
    then show "fst (run_count_check D query val (PStr symb) description w) = Inr (math_rel symb s t)"
      using run by (simp add: str)
  qed
qed

theorem count_check_iff_relation_witness:
  "''>='' \<in> supported \<and>
   db_execute (const_driver (Inr (ResultSet [''count''] [[PInt 5]]))) (ext world0) (Q (PStr ''SELECT count(*) FROM t'')) [] =
     (Inr (ResultSet [''count''] [[PInt 5]]), 1) \<and>
   fst (run_count_check (const_driver (Inr (ResultSet [''count''] [[PInt 5]])))
          (PStr ''SELECT count(*) FROM t'') (PInt 3) (PStr ''>='') (PStr ''rows'') world0) = Inr True"
proof -
  have s: "''>='' \<in> supported" by (simp add: supported_def)
  have e: "db_execute (const_driver (Inr (ResultSet [''count''] [[PInt 5]]))) (ext world0) (Q (PStr ''SELECT count(*) FROM t'')) [] =
     (Inr (ResultSet [''count''] [[PInt 5]]), 1)"
    by (simp add: const_driver_def world0_def)
  show ?thesis
    using s e count_check_iff_relation [OF s e, of "PInt 3" "PStr ''rows''"]
    by (simp add: math_rel_def)
qed


text \<open>
  C5.  An operator that is not one of the six supported symbols (any hashable value: another
  string, a number, \<^verbatim>\<open>None\<close> for a missing key) makes \<^verbatim>\<open>run_count_check\<close> return \<^verbatim>\<open>False\<close>
  after logging the error "Unsupported operator"; no exception reaches the caller.
\<close>

theorem count_check_unsupported_operator:
  assumes "hashable op_str" and "op_str \<notin> PStr ` supported"
  shows "run_count_check D query val op_str description w =
     (Inr False,
      w\<lparr>log := log w @
         [(Info, Banner), (Info, RunningCountCheck description), (Info, QueryLine query),
          (Info, OperatorValue op_str val), (Error, UnsupportedOperator op_str)]\<rparr>)"
  by (simp add: run_count_check_def operators_get_unsupported [OF assms] info_def error_def)

theorem count_check_unsupported_operator_witness:
  "hashable (PStr ''=>'') \<and> PStr ''=>'' \<notin> PStr ` supported \<and>
   run_count_check (const_driver (Inr (ResultSet [''count''] [[PInt 5]])))
     (PStr ''SELECT count(*) FROM t'') (PInt 3) (PStr ''=>'') (PStr ''rows'') world0 =
     (Inr False,
      \<lparr>ext = 0, calls = [],
       log = [(Info, Banner), (Info, RunningCountCheck (PStr ''rows'')),
              (Info, QueryLine (PStr ''SELECT count(*) FROM t'')),
              (Info, OperatorValue (PStr ''=>'') (PInt 3)),
              (Error, UnsupportedOperator (PStr ''=>''))]\<rparr>)"
proof -
  have h: "hashable (PStr ''=>'')" by simp
  have u: "PStr ''=>'' \<notin> PStr ` supported" by (simp add: supported_def image_iff)
  show ?thesis
    using h u
      count_check_unsupported_operator [OF h u,
        of "const_driver (Inr (ResultSet [''count''] [[PInt 5]]))"
           "PStr ''SELECT count(*) FROM t''" "PInt 3" "PStr ''rows''" world0]
    by (simp add: world0_def)
qed

text \<open>
  C6.  When the operator is supported and the query returns an empty result set,
  \<^verbatim>\<open>run_count_check\<close> returns \<^verbatim>\<open>False\<close> after logging the error "Query returned no rows";
  nothing is raised.
\<close>

theorem count_check_no_rows:
  assumes symb: "symb \<in> supported"
    and exec: "db_execute D (ext w) (Q query) [] = (Inr (ResultSet cols []), s')"
  shows "run_count_check D query val (PStr symb) description w =
     (Inr False,
      w\<lparr>ext := s', calls := calls w @ [Execute (Q query) []],
        log := log w @
         [(Info, Banner), (Info, RunningCountCheck description), (Info, QueryLine query),
          (Info, OperatorValue (PStr symb) val), (Error, NoRowsReturned)]\<rparr>)"
proof -
  obtain f where "operators_get (PStr symb) = Inr (Some f)"
    using operators_get_supported [OF symb] by blast
  then show ?thesis
    using exec
    by (simp add: run_count_check_def cursor_execute_def fetchone_def info_def error_def)
qed

theorem count_check_no_rows_witness:
  "''>'' \<in> supported \<and>
   db_execute (const_driver (Inr (ResultSet [''count''] []))) (ext world0)
     (Q (PStr ''SELECT n FROM t'')) [] = (Inr (ResultSet [''count''] []), 1) \<and>
   run_count_check (const_driver (Inr (ResultSet [''count''] [])))
     (PStr ''SELECT n FROM t'') (PInt 0) (PStr ''>'') (PStr ''rows'') world0 =
     (Inr False,
      \<lparr>ext = 1, calls = [Execute (Q (PStr ''SELECT n FROM t'')) []],
       log = [(Info, Banner), (Info, RunningCountCheck (PStr ''rows'')),
              (Info, QueryLine (PStr ''SELECT n FROM t'')),
              (Info, OperatorValue (PStr ''>'') (PInt 0)),
              (Error, NoRowsReturned)]\<rparr>)"
proof -
  have s: "''>'' \<in> supported" by (simp add: supported_def)
  have e: "db_execute (const_driver (Inr (ResultSet [''count''] []))) (ext world0)
     (Q (PStr ''SELECT n FROM t'')) [] = (Inr (ResultSet [''count''] []), 1)"
    by (simp add: const_driver_def world0_def)
  show ?thesis
    using s e count_check_no_rows [OF s e, of "PInt 0" "PStr ''rows''"]
    by (simp add: world0_def)
qed

text \<open>
  C10.  When the operator is not supported, \<^verbatim>\<open>run_count_check\<close> returns \<^verbatim>\<open>False\<close> without
  calling the driver: the state of the outside world and the list of calls made to the driver
  are what they were before the check.
\<close>

theorem count_check_unsupported_no_query:
  assumes "hashable op_str" and "op_str \<notin> PStr ` supported"
  shows "fst (run_count_check D query val op_str description w) = Inr False \<and>
         ext (snd (run_count_check D query val op_str description w)) = ext w \<and>
         calls (snd (run_count_check D query val op_str description w)) = calls w"
  by (simp add: run_count_check_def operators_get_unsupported [OF assms])

theorem count_check_unsupported_no_query_witness:
  "hashable (PStr ''=='') \<and> PStr ''=='' \<notin> PStr ` supported \<and>
   fst (run_count_check (const_driver (Inr (ResultSet [''count''] [[PInt 5]])))
          (PStr ''SELECT count(*) FROM t'') (PInt 5) (PStr ''=='') (PStr ''rows'') world0) = Inr False \<and>
   ext (snd (run_count_check (const_driver (Inr (ResultSet [''count''] [[PInt 5]])))
          (PStr ''SELECT count(*) FROM t'') (PInt 5) (PStr ''=='') (PStr ''rows'') world0)) = 0 \<and>
   calls (snd (run_count_check (const_driver (Inr (ResultSet [''count''] [[PInt 5]])))
          (PStr ''SELECT count(*) FROM t'') (PInt 5) (PStr ''=='') (PStr ''rows'') world0)) = []"
proof -
  have h: "hashable (PStr ''=='')" by simp
  have u: "PStr ''=='' \<notin> PStr ` supported" by (simp add: supported_def image_iff)
  show ?thesis
    using h u
      count_check_unsupported_no_query [OF h u,
        of "const_driver (Inr (ResultSet [''count''] [[PInt 5]]))"
           "PStr ''SELECT count(*) FROM t''" "PInt 5" "PStr ''rows''" world0]
    by (simp add: world0_def)
qed

section \<open>The table-existence check\<close>

lemma existing_tables_set:
  "\<exists>S. set_comp index0 (map (\<lambda>n. [PStr n]) existing) [] = Inr S \<and>
       (\<forall>t. set_has S (PStr t) \<longleftrightarrow> t \<in> set existing)"
proof -
  have "\<forall>x\<in>set (map (\<lambda>n. [PStr n]) existing). \<exists>v. index0 x = Inr v \<and> hashable v"
    by (auto simp: index0_def)
  from set_comp_ok [OF this, of "[]"] obtain S
    where S: "set_comp index0 (map (\<lambda>n. [PStr n]) existing) [] = Inr S"
      and has: "\<And>v. set_has S v \<longleftrightarrow>
        set_has [] v \<or> (\<exists>x\<in>set (map (\<lambda>n. [PStr n]) existing). \<exists>u. index0 x = Inr u \<and> py_eq u v)"
    by blast
  have "\<And>t. set_has S (PStr t) \<longleftrightarrow> t \<in> set existing"
    by (subst has) (auto simp: set_has_iff index0_def py_eq_PStr)
  with S show ?thesis by blast
qed

lemma missing_tables_names:
  "missing_tables (map (\<lambda>n. [PStr n]) existing) (PList (map PStr required)) =
     Inr (map PStr (filter (\<lambda>t. t \<notin> set existing) required))"
proof -
  obtain S where S: "set_comp index0 (map (\<lambda>n. [PStr n]) existing) [] = Inr S"
    and has: "\<And>t. set_has S (PStr t) \<longleftrightarrow> t \<in> set existing"
    using existing_tables_set by blast
  have "filter_not_in (map PStr required) S =
          Inr (filter (\<lambda>t. \<not> set_has S t) (map PStr required))"
    by (rule filter_not_in_ok) auto
  also have "filter (\<lambda>t. \<not> set_has S t) (map PStr required) =
          map PStr (filter (\<lambda>t. t \<notin> set existing) required)"
    by (simp add: filter_map o_def has)
  finally show ?thesis
    by (simp add: missing_tables_def S)
qed

text \<open>
  C7.  When the catalog query succeeds and returns the names \<open>existing\<close>, one row per table,
  \<^verbatim>\<open>run_table_exists\<close> on the required names \<open>required\<close> passes exactly when the difference
  of the two sets is empty; when it fails it logs the required names that are not among
  the existing ones, in the order of the required list; an empty required list passes.
\<close>

theorem table_exists_iff_none_missing:
  assumes exec: "db_execute D (ext w) CatalogTables [schema] =
                   (Inr (ResultSet cols (map (\<lambda>n. [PStr n]) existing)), s')"
  shows "fst (run_table_exists D (PList (map PStr required)) schema w) =
           (set required - set existing = {}) \<and>
         (set required - set existing \<noteq> {} \<longrightarrow>
            log (snd (run_table_exists D (PList (map PStr required)) schema w)) =
              log w @ [(Info, Banner), (Info, RunningTableExists (PList (map PStr required))),
                       (Error, MissingTables (map PStr (filter (\<lambda>t. t \<notin> set existing) required)))]) \<and>
         (required = [] \<longrightarrow> fst (run_table_exists D (PList (map PStr required)) schema w))"
proof -
  have empty: "filter (\<lambda>t. t \<notin> set existing) required = [] \<longleftrightarrow> set required - set existing = {}"
    by (auto simp: filter_empty_conv)
  have run: "run_table_exists D (PList (map PStr required)) schema w =
      (let w3 = (info (RunningTableExists (PList (map PStr required))) (info Banner w))
                  \<lparr>ext := s', calls := calls w @ [Execute CatalogTables [schema]]\<rparr>
       in if set required - set existing = {} then (True, info AllTablesExist w3)
          else (False, error (MissingTables (map PStr (filter (\<lambda>t. t \<notin> set existing) required))) w3))"
    using exec
    by (simp add: run_table_exists_def cursor_execute_def fetchall_def missing_tables_names
        empty Let_def)
  have fst_run: "fst (run_table_exists D (PList (map PStr required)) schema w) =
           (set required - set existing = {})"
    by (simp add: run Let_def)
  moreover have "set required - set existing \<noteq> {} \<longrightarrow>
            log (snd (run_table_exists D (PList (map PStr required)) schema w)) =
              log w @ [(Info, Banner), (Info, RunningTableExists (PList (map PStr required))),
                       (Error, MissingTables (map PStr (filter (\<lambda>t. t \<notin> set existing) required)))]"
    by (simp add: run Let_def)
  moreover have "required = [] \<longrightarrow> fst (run_table_exists D (PList (map PStr required)) schema w)"
    unfolding fst_run by simp
  ultimately show ?thesis by blast
qed

theorem table_exists_iff_none_missing_witness:
  "db_execute (const_driver (Inr (ResultSet [''table_name''] (map (\<lambda>n. [PStr n]) [''orders'']))))
     (ext world0) CatalogTables [PStr ''public''] =
     (Inr (ResultSet [''table_name''] (map (\<lambda>n. [PStr n]) [''orders''])), 1) \<and>
   fst (run_table_exists (const_driver (Inr (ResultSet [''table_name''] (map (\<lambda>n. [PStr n]) [''orders'']))))
          (PList (map PStr [''orders'', ''users''])) (PStr ''public'') world0) = False \<and>
   log (snd (run_table_exists (const_driver (Inr (ResultSet [''table_name''] (map (\<lambda>n. [PStr n]) [''orders'']))))
          (PList (map PStr [''orders'', ''users''])) (PStr ''public'') world0)) =
     [(Info, Banner), (Info, RunningTableExists (PList [PStr ''orders'', PStr ''users''])),
      (Error, MissingTables [PStr ''users''])]"
proof -
  have e: "db_execute (const_driver (Inr (ResultSet [''table_name''] (map (\<lambda>n. [PStr n]) [''orders'']))))
     (ext world0) CatalogTables [PStr ''public''] =
     (Inr (ResultSet [''table_name''] (map (\<lambda>n. [PStr n]) [''orders''])), 1)"
    by (simp add: const_driver_def world0_def)
  show ?thesis
    using e table_exists_iff_none_missing [OF e, of "[''orders'', ''users'']"]
    by (simp add: world0_def)
qed


section \<open>The set-inclusion check\<close>

lemma actual_set_ok:
  assumes "\<forall>r\<in>set actual. list_all hashable r"
  shows "\<exists>A. set_comp (\<lambda>row. Inr (PTuple row)) actual [] = Inr A \<and>
           (\<forall>e. set_has A (PTuple e) \<longleftrightarrow> row_present (set actual) e)"
proof -
  have "\<forall>x\<in>set actual. \<exists>v. (\<lambda>row. Inr (PTuple row)) x = Inr v \<and> hashable v"
    using assms by simp
  from set_comp_ok [OF this, of "[]"] obtain A
    where A: "set_comp (\<lambda>row. Inr (PTuple row)) actual [] = Inr A"
      and has: "\<And>v. set_has A v \<longleftrightarrow>
        set_has [] v \<or> (\<exists>x\<in>set actual. \<exists>u. Inr (PTuple x) = (Inr u :: exn + pyval) \<and> py_eq u v)"
    by blast
  have "\<And>e. set_has A (PTuple e) \<longleftrightarrow> row_present (set actual) e"
    by (subst has) (auto simp: set_has_iff row_present_def py_eq_sym)
  with A show ?thesis by blast
qed

lemma expected_set_ok:
  assumes "\<forall>r\<in>set expected. list_all hashable r"
  shows "\<exists>E. set_comp py_tuple (map PList expected) [] = Inr E \<and>
           (\<forall>e\<in>set expected. \<exists>p\<in>set E. py_eq p (PTuple e)) \<and>
           set E \<subseteq> PTuple ` set expected"
proof -
  have "\<forall>x\<in>set (map PList expected). \<exists>v. py_tuple x = Inr v \<and> hashable v"
    using assms by (auto simp: py_tuple_def)
  from set_comp_ok [OF this, of "[]"] obtain E
    where E: "set_comp py_tuple (map PList expected) [] = Inr E"
      and has: "\<And>v. set_has E v \<longleftrightarrow>
        set_has [] v \<or> (\<exists>x\<in>set (map PList expected). \<exists>u. py_tuple x = Inr u \<and> py_eq u v)"
      and sub: "set E \<subseteq> set [] \<union> {u. \<exists>x\<in>set (map PList expected). py_tuple x = Inr u}"
    by blast
  have "\<forall>e\<in>set expected. set_has E (PTuple e)"
  proof
    fix e assume "e \<in> set expected"
    then have "PList e \<in> set (map PList expected)" by simp
    moreover have "py_tuple (PList e) = Inr (PTuple e) \<and> py_eq (PTuple e) (PTuple e)"
      by (simp add: py_tuple_def)
    ultimately show "set_has E (PTuple e)"
      using has by blast
  qed
  then have "\<forall>e\<in>set expected. \<exists>p\<in>set E. py_eq p (PTuple e)"
    by (simp add: set_has_iff)
  moreover have "set E \<subseteq> PTuple ` set expected"
    using sub by (auto simp: py_tuple_def)
  ultimately show ?thesis using E by blast
qed

lemma row_present_hashable:
  assumes "\<forall>r\<in>set actual. list_all hashable r" and "row_present (set actual) e"
  shows "list_all hashable e"
proof -
  from assms(2) obtain a where a: "a \<in> set actual" "py_eq (PTuple e) (PTuple a)"
    by (auto simp: row_present_def)
  from py_eq_hashable [OF a(2)] assms(1) a(1) show ?thesis by simp
qed

lemma row_present_py_eq:
  assumes "py_eq (PTuple e) (PTuple e')"
  shows "row_present A e \<longleftrightarrow> row_present A e'"
  using assms by (simp add: row_present_def py_eq_def)

lemma missing_values_hashable:
  assumes act: "\<forall>r\<in>set actual. list_all hashable r"
    and exp: "\<forall>r\<in>set expected. list_all hashable r"
  shows "\<exists>M. missing_values actual (PList (map PList expected)) = Inr M \<and>
           (M = [] \<longleftrightarrow> (\<forall>e\<in>set expected. row_present (set actual) e)) \<and>
           set M \<subseteq> PTuple ` {e \<in> set expected. \<not> row_present (set actual) e} \<and>
           (\<forall>e\<in>set expected. \<not> row_present (set actual) e \<longrightarrow> (\<exists>p\<in>set M. py_eq p (PTuple e)))"
proof -
  obtain A where A: "set_comp (\<lambda>row. Inr (PTuple row)) actual [] = Inr A"
    and hasA: "\<And>e. set_has A (PTuple e) \<longleftrightarrow> row_present (set actual) e"
    using actual_set_ok [OF act] by blast
  obtain E where E: "set_comp py_tuple (map PList expected) [] = Inr E"
    and cover: "\<forall>e\<in>set expected. \<exists>p\<in>set E. py_eq p (PTuple e)"
    and sub: "set E \<subseteq> PTuple ` set expected"
    using expected_set_ok [OF exp] by blast
  let ?M = "set_minus E A"
  have mv: "missing_values actual (PList (map PList expected)) = Inr ?M"
    by (simp add: missing_values_def A E)
  have memM: "\<And>p. p \<in> set ?M \<longleftrightarrow> p \<in> set E \<and> \<not> set_has A p"
    by (simp add: set_minus_def)
  have subM: "set ?M \<subseteq> PTuple ` {e \<in> set expected. \<not> row_present (set actual) e}"
  proof
    fix p assume "p \<in> set ?M"
    then have pE: "p \<in> set E" and nA: "\<not> set_has A p" by (simp_all add: memM)
    from pE sub obtain e where e: "e \<in> set expected" "p = PTuple e" by auto
    with nA have "\<not> row_present (set actual) e" by (simp add: hasA)
    with e show "p \<in> PTuple ` {e \<in> set expected. \<not> row_present (set actual) e}" by blast
  qed
  have coverM: "\<forall>e\<in>set expected. \<not> row_present (set actual) e \<longrightarrow> (\<exists>p\<in>set ?M. py_eq p (PTuple e))"
  proof (intro ballI impI)
    fix e assume e: "e \<in> set expected" and miss: "\<not> row_present (set actual) e"
    from cover e obtain p where p: "p \<in> set E" "py_eq p (PTuple e)" by blast
    from p(1) sub obtain e' where e': "p = PTuple e'" by auto
    have "\<not> row_present (set actual) e'"
      using miss row_present_py_eq [of e' e "set actual"] p(2) e' by simp
    then have "\<not> set_has A p" by (simp add: e' hasA)
    with p show "\<exists>p\<in>set ?M. py_eq p (PTuple e)" by (auto simp: memM)
  qed
  have emptyM: "?M = [] \<longleftrightarrow> (\<forall>e\<in>set expected. row_present (set actual) e)"
  proof
    assume M: "?M = []"
    show "\<forall>e\<in>set expected. row_present (set actual) e"
    proof (rule ballI, rule ccontr)
      fix e assume "e \<in> set expected" and "\<not> row_present (set actual) e"
      with coverM obtain p where "p \<in> set ?M" by blast
      with M show False by simp
    qed
  next
    assume "\<forall>e\<in>set expected. row_present (set actual) e"
    then have "{e \<in> set expected. \<not> row_present (set actual) e} = {}" by blast
    with subM have "set ?M \<subseteq> {}" by simp
    then show "?M = []" by simp
  qed
  show ?thesis
    by (rule exI [of _ ?M], intro conjI) (rule mv emptyM subM coverM)+
qed

lemma missing_values_unhashable:
  assumes act: "\<forall>r\<in>set actual. list_all hashable r"
    and exp: "\<not> (\<forall>r\<in>set expected. list_all hashable r)"
  shows "(\<exists>x. missing_values actual (PList (map PList expected)) = Inl x) \<and>
         \<not> (\<forall>e\<in>set expected. row_present (set actual) e)"
proof -
  from exp obtain r where r: "r \<in> set expected" "\<not> list_all hashable r" by blast
  obtain A where A: "set_comp (\<lambda>row. Inr (PTuple row)) actual [] = Inr A"
    using actual_set_ok [OF act] by blast
  have in_rows: "PList r \<in> set (map PList expected)" using r(1) by simp
  have tup: "py_tuple (PList r) = Inr (PTuple r)" by (simp add: py_tuple_def)
  have unh: "\<not> hashable (PTuple r)" using r(2) by simp
  obtain x where "set_comp py_tuple (map PList expected) [] = Inl x"
    using set_comp_unhashable [where x = "PList r" and xs = "map PList expected"
        and f = py_tuple and v = "PTuple r" and S = "[]"] in_rows tup unh
    by blast
  then have "missing_values actual (PList (map PList expected)) = Inl x"
    by (simp add: missing_values_def A)
  moreover have "\<not> row_present (set actual) r"
    using row_present_hashable [OF act] r(2) by blast
  ultimately show ?thesis
    using r(1) by blast
qed

text \<open>
  C8, as the code has it.  When the query succeeds and every value of the actual rows is
  hashable, \<^verbatim>\<open>run_includes_check\<close> passes exactly when every expected tuple appears among the
  actual rows.  The condition mentions only the set of expected tuples and the set of actual
  rows, so the order of the rows and how often each occurs, on either side, do not change
  the outcome, and rows beyond the expected ones do no harm.  When the check fails and the
  expected values are hashable too, it logs the set of missing tuples: every logged tuple is
  an expected tuple that does not appear, and every expected tuple that does not appear is
  equal to a logged one.
\<close>

theorem includes_check_iff_all_present:
  assumes exec: "db_execute D (ext w) (Q query) [] = (Inr (ResultSet cols actual), s')"
    and act: "\<forall>r\<in>set actual. list_all hashable r"
  shows "fst (run_includes_check D query (PList (map PList expected)) description w) =
           (\<forall>e\<in>set expected. row_present (set actual) e) \<and>
         ((\<forall>r\<in>set expected. list_all hashable r) \<longrightarrow>
          \<not> (\<forall>e\<in>set expected. row_present (set actual) e) \<longrightarrow>
          (\<exists>P. log (snd (run_includes_check D query (PList (map PList expected)) description w)) =
                  log w @ [(Info, Banner), (Info, RunningIncludesCheck description),
                           (Info, QueryLine query),
                           (Info, ExpectedValues (PList (map PList expected))),
                           (Error, MissingValues P)] \<and>
                P \<subseteq> PTuple ` {e \<in> set expected. \<not> row_present (set actual) e} \<and>
                (\<forall>e\<in>set expected. \<not> row_present (set actual) e \<longrightarrow>
                   (\<exists>p\<in>P. py_eq p (PTuple e)))))"
proof -
  let ?run = "run_includes_check D query (PList (map PList expected)) description w"
  let ?w5 = "(info (ExpectedValues (PList (map PList expected)))
               (info (QueryLine query) (info (RunningIncludesCheck description) (info Banner w))))
             \<lparr>ext := s', calls := calls w @ [Execute (Q query) []]\<rparr>"
  have run: "?run =
      (case missing_values actual (PList (map PList expected)) of
         Inl e \<Rightarrow> (False, error (IncludesCheckFailed e) ?w5)
       | Inr missing \<Rightarrow>
           if missing = [] then (True, info AllExpectedPresent ?w5)
           else (False, error (MissingValues (set missing)) ?w5))"
    using exec
    by (simp add: run_includes_check_def cursor_execute_def fetchall_def Let_def)
  show ?thesis
  proof (cases "\<forall>r\<in>set expected. list_all hashable r")
    case True
    from missing_values_hashable [OF act True] obtain M
      where mv: "missing_values actual (PList (map PList expected)) = Inr M"
        and empty: "M = [] \<longleftrightarrow> (\<forall>e\<in>set expected. row_present (set actual) e)"
        and sub: "set M \<subseteq> PTuple ` {e \<in> set expected. \<not> row_present (set actual) e}"
        and cover: "\<forall>e\<in>set expected. \<not> row_present (set actual) e \<longrightarrow> (\<exists>p\<in>set M. py_eq p (PTuple e))"
      by blast
    have res: "fst ?run = (\<forall>e\<in>set expected. row_present (set actual) e)"
      by (simp add: run mv empty [symmetric])
    have "M \<noteq> [] \<Longrightarrow> log (snd ?run) =
                  log w @ [(Info, Banner), (Info, RunningIncludesCheck description),
                           (Info, QueryLine query),
                           (Info, ExpectedValues (PList (map PList expected))),
                           (Error, MissingValues (set M))]"
      by (simp add: run mv)
    with sub cover empty res show ?thesis by blast
  next
    case False
    from missing_values_unhashable [OF act False] obtain x
      where mv: "missing_values actual (PList (map PList expected)) = Inl x"
        and no: "\<not> (\<forall>e\<in>set expected. row_present (set actual) e)"
      by blast
    have "fst ?run = False"
      by (simp add: run mv)
    with no False show ?thesis by blast
  qed
qed

theorem includes_check_iff_all_present_witness:
  "db_execute (const_driver (Inr (ResultSet [''id'', ''name''] [[PInt 1, PStr ''a'']])))
     (ext world0) (Q (PStr ''SELECT id, name FROM t'')) [] =
     (Inr (ResultSet [''id'', ''name''] [[PInt 1, PStr ''a'']]), 1) \<and>
   list_all (list_all hashable) [[PInt 1, PStr ''a'']] \<and>
   fst (run_includes_check (const_driver (Inr (ResultSet [''id'', ''name''] [[PInt 1, PStr ''a'']])))
          (PStr ''SELECT id, name FROM t'')
          (PList (map PList [[PInt 1, PStr ''a''], [PInt 1, PStr ''a'']])) (PStr ''pairs'') world0) = True \<and>
   fst (run_includes_check (const_driver (Inr (ResultSet [''id'', ''name''] [[PInt 1, PStr ''a'']])))
          (PStr ''SELECT id, name FROM t'')
          (PList (map PList [[PInt 1, PStr ''a''], [PInt 2, PStr ''b'']])) (PStr ''pairs'') world0) = False"
proof -
  have e: "db_execute (const_driver (Inr (ResultSet [''id'', ''name''] [[PInt 1, PStr ''a'']])))
     (ext world0) (Q (PStr ''SELECT id, name FROM t'')) [] =
     (Inr (ResultSet [''id'', ''name''] [[PInt 1, PStr ''a'']]), 1)"
    by (simp add: const_driver_def world0_def)
  have h: "\<forall>r\<in>set [[PInt 1, PStr ''a'']]. list_all hashable r"
    by simp
  show ?thesis
    using e h
      includes_check_iff_all_present [OF e h, of "[[PInt 1, PStr ''a''], [PInt 1, PStr ''a'']]" "PStr ''pairs''"]
      includes_check_iff_all_present [OF e h, of "[[PInt 1, PStr ''a''], [PInt 2, PStr ''b'']]" "PStr ''pairs''"]
    by (simp add: row_present_def py_eq_def)
qed

text \<open>
  C8 as stated fails.  A set holds hashable members only, so a row with an array in it makes
  \<^verbatim>\<open>{tuple(row) for row in actual_rows}\<close> raise \<^verbatim>\<open>TypeError\<close>, which the generic handler turns
  into a failed check: with nothing expected the check fails, and it fails on a strict
  superset of the expected rows in which the only expected tuple is present.  With an array
  among the expected values the diagnostic is the exception, not a set of missing tuples.
\<close>

theorem includes_check_fails_on_array_rows:
  "fst (run_includes_check (const_driver (Inr (ResultSet [''tags''] [[PList [PStr ''x'']]])))
          (PStr ''SELECT tags FROM t'') (PList []) (PStr ''nothing expected'') world0) = False \<and>
   row_present (set [[PInt 1], [PList [PInt 2]]]) [PInt 1] \<and>
   fst (run_includes_check (const_driver (Inr (ResultSet [''v''] [[PInt 1], [PList [PInt 2]]])))
          (PStr ''SELECT v FROM t'') (PList [PList [PInt 1]]) (PStr ''superset'') world0) = False \<and>
   log (snd (run_includes_check (const_driver (Inr (ResultSet [''v''] [[PInt 1]])))
          (PStr ''SELECT v FROM t'') (PList [PList [PList [PInt 2]]]) (PStr ''array expected'') world0)) =
     [(Info, Banner), (Info, RunningIncludesCheck (PStr ''array expected'')),
      (Info, QueryLine (PStr ''SELECT v FROM t'')),
      (Info, ExpectedValues (PList [PList [PList [PInt 2]]])),
      (Error, IncludesCheckFailed TypeError)]"
  by (simp add: run_includes_check_def cursor_execute_def const_driver_def world0_def fetchall_def
      missing_values_def set_add_def set_has_def py_tuple_def row_present_def py_eq_def
      info_def error_def)

section \<open>The dispatcher\<close>

lemma started_simps [simp]:
  "started (info m w) = started w @ filter is_start [m]"
  "started (error m w) = started w @ filter is_start [m]"
  by (simp_all add: started_def info_def error_def)









text \<open>
  C2, as the code has it.  A check whose type is none of the four kinds matches no branch of
  the \<^verbatim>\<open>if\<close>/\<^verbatim>\<open>elif\<close> chain: the dispatcher executes nothing, logs nothing, produces no
  result, and goes on with the next check.  The unknown kind is skipped silently.
\<close>

theorem unknown_kind_is_skipped:
  assumes "dict_get_none v ''type'' \<notin> PStr ` known_kinds"
  shows "dispatch D conn_config v w = (Inr (), w) \<and>
         run_validations D conn_config (v # vs) w = run_validations D conn_config vs w"
proof -
  have "dispatch D conn_config v w = (Inr (), w)"
    using assms by (auto simp: dispatch_def known_kinds_def py_eq_PStr Let_def)
  then show ?thesis by simp
qed


theorem unknown_kind_is_skipped_witness:
  "dict_get_none [(''type'', PStr ''ROW_COUNT''), (''query'', PStr ''SELECT 1'')] ''type''
     \<notin> PStr ` known_kinds \<and>
   run_validations down_driver (conn_to ''up.example'')
     ([(''type'', PStr ''ROW_COUNT''), (''query'', PStr ''SELECT 1'')] # [count_rows]) world0 =
   run_validations down_driver (conn_to ''up.example'') [count_rows] world0"
proof -
  have u: "dict_get_none [(''type'', PStr ''ROW_COUNT''), (''query'', PStr ''SELECT 1'')] ''type''
     \<notin> PStr ` known_kinds"
    by (simp add: dict_get_none_def dict_get_def known_kinds_def)
  show ?thesis
    using u unknown_kind_is_skipped [OF u, of down_driver "conn_to ''up.example''" world0 "[count_rows]"]
    by simp
qed


text \<open>
  C2 as stated fails: for a check of the unknown type \<^verbatim>\<open>ROW_COUNT\<close> the dispatcher returns
  with the world as it was, so nothing marks a configuration error.
\<close>

theorem unknown_kind_reports_nothing:
  "dispatch down_driver (conn_to ''up.example'')
     [(''type'', PStr ''ROW_COUNT''), (''query'', PStr ''SELECT 1'')] world0 = (Inr (), world0) \<and>
   log world0 = []"
  by (simp add: dispatch_def dict_get_none_def dict_get_def py_eq_def world0_def)


lemma run_table_exists_calls:
  "calls (snd (run_table_exists D required_tables schema w)) =
     calls w @ [Execute CatalogTables [schema]]"
  by (auto simp: run_table_exists_def cursor_execute_def Let_def split: prod.splits sum.splits)


text \<open>
  C3, as the code has it.  A TABLE_EXISTS check queries the catalog for the schema of the
  database entry's connection when the connection has the key \<^verbatim>\<open>schema\<close>, and for
  \<^verbatim>\<open>public\<close> otherwise.  A schema given on the check itself is not read.
\<close>

theorem table_exists_schema_from_connection:
  assumes "map_of v ''type'' = Some (PStr ''TABLE_EXISTS'')"
  shows "calls (snd (dispatch D conn_config v w)) =
     calls w @ [Execute CatalogTables
                  [case map_of conn_config ''schema'' of None \<Rightarrow> PStr ''public'' | Some s \<Rightarrow> s]]"
  using assms
  by (simp add: dispatch_def dict_get_none_def dict_get_def py_eq_def run_table_exists_calls)


theorem table_exists_schema_from_connection_witness:
  "map_of [(''type'', PStr ''TABLE_EXISTS''), (''required_tables'', PList [PStr ''orders''])] ''type'' =
     Some (PStr ''TABLE_EXISTS'') \<and>
   calls (snd (dispatch (const_driver (Inr (ResultSet [''table_name''] [[PStr ''orders'']])))
                 (conn_to ''up.example'')
                 [(''type'', PStr ''TABLE_EXISTS''), (''required_tables'', PList [PStr ''orders''])]
                 world0)) =
     [Execute CatalogTables [PStr ''public'']]"
proof -
  have t: "map_of [(''type'', PStr ''TABLE_EXISTS''), (''required_tables'', PList [PStr ''orders''])] ''type'' =
     Some (PStr ''TABLE_EXISTS'')"
    by simp
  show ?thesis
    using t table_exists_schema_from_connection [OF t,
        of "const_driver (Inr (ResultSet [''table_name''] [[PStr ''orders'']]))"
           "conn_to ''up.example''" world0]
    by (simp add: conn_to_def world0_def)
qed


text \<open>
  C3 as stated fails: a check that names the schema \<^verbatim>\<open>audit\<close>, in a database entry whose
  schema is \<^verbatim>\<open>sales\<close>, queries the catalog for \<^verbatim>\<open>sales\<close>.
\<close>

theorem check_schema_is_ignored:
  "calls (snd (dispatch (const_driver (Inr (ResultSet [''table_name''] [[PStr ''orders'']])))
                 [(''schema'', PStr ''sales'')]
                 [(''type'', PStr ''TABLE_EXISTS''), (''schema'', PStr ''audit''),
                  (''required_tables'', PList [PStr ''orders''])]
                 world0)) =
     [Execute CatalogTables [PStr ''sales'']]"
  by (simp add: dispatch_def dict_get_none_def dict_get_def py_eq_def run_table_exists_def
      cursor_execute_def const_driver_def world0_def info_def error_def fetchall_def Let_def
      split: sum.splits)


subsection \<open>Failure isolation\<close>

















section \<open>The run over the databases\<close>

lemma main_append:
  "main D pre w = (Inr (), w1) \<Longrightarrow> main D (pre @ rest) w = main D rest w1"
proof (induction pre arbitrary: w)
  case Nil
  then show ?case by simp
next
  case (Cons db dbs)
  then show ?case
    by (auto split: prod.splits sum.splits)
qed

lemma create_connection_refused:
  assumes args: "conn_args conn_config = Inr args"
    and fail: "db_connect D (ext w) args = (Inl e, s')"
  shows "create_connection D conn_config w =
     (Inl (Exit 1),
      w\<lparr>ext := s', calls := calls w @ [Connect args], log := log w @ [(Error, FailedToConnect e)]\<rparr>)"
  using assms by (simp add: create_connection_def connect_body_def error_def)

text \<open>
  C1, as the code has it.  When the databases \<open>pre\<close> have been processed and connecting to the
  next database \<open>d\<close> fails, \<^verbatim>\<open>create_connection\<close> logs the failure as an error and calls
  \<^verbatim>\<open>sys.exit(1)\<close>: the run ends with exit status 1 and the databases \<open>post\<close> after \<open>d\<close> are
  not processed.
\<close>

theorem connection_failure_exits:
  assumes pre: "main D pre w = (Inr (), w1)"
    and args: "conn_args (connection d) = Inr args"
    and fail: "db_connect D (ext w1) args = (Inl e, s')"
  shows "main D (pre @ d # post) w =
     (Inl (Exit 1),
      w1\<lparr>ext := s', calls := calls w1 @ [Connect args],
         log := log w1 @ [(Error, FailedToConnect e)]\<rparr>)"
proof -
  have "main D (pre @ d # post) w = main D (d # post) w1"
    by (rule main_append [OF pre])
  also have "\<dots> = (Inl (Exit 1),
      w1\<lparr>ext := s', calls := calls w1 @ [Connect args],
         log := log w1 @ [(Error, FailedToConnect e)]\<rparr>)"
    by (simp add: create_connection_refused [OF args fail])
  finally show ?thesis .
qed



lemma main_up_example:
  "main down_driver [db_on ''up.example''] world0 =
     (Inr (),
      \<lparr>ext = 2,
       calls = [Connect [PStr ''up.example'', PInt 5432, PStr ''app'', PStr ''validator'', PStr ''secret''],
                Execute (Q (PStr ''SELECT count(*) FROM t'')) [], Close],
       log = [(Info, Connected), (Info, Banner),
              (Info, RunningCountCheck (PStr ''No description'')),
              (Info, QueryLine (PStr ''SELECT count(*) FROM t'')),
              (Info, OperatorValue (PStr ''>='') (PInt 1)),
              (Info, CheckPassed (PInt 1) (PStr ''>='') (PInt 1)),
              (Info, ConnectionClosed)]\<rparr>)"
  by (simp add: db_on_def create_connection_def connect_body_def conn_args_def conn_to_def
      dict_index_def down_driver_def world0_def error_def info_def dict_get_none_def dict_get_def
      dispatch_def count_rows_def py_eq_def run_count_check_def operators_get_def OPERATORS_def
      cursor_execute_def fetchone_def index0_def cmp_holds_def close_connection_def)

theorem connection_failure_exits_witness:
  "fst (main down_driver [db_on ''up.example''] world0) = Inr () \<and>
   conn_args (connection (db_on ''down.example'')) =
     Inr [PStr ''down.example'', PInt 5432, PStr ''app'', PStr ''validator'', PStr ''secret''] \<and>
   db_connect down_driver 2
     [PStr ''down.example'', PInt 5432, PStr ''app'', PStr ''validator'', PStr ''secret''] =
     (Inl (DatabaseError ''connection refused''), 3) \<and>
   main down_driver ([db_on ''up.example''] @ db_on ''down.example'' # [db_on ''up.example'']) world0 =
     (Inl (Exit 1),
      \<lparr>ext = 3,
       calls = [Connect [PStr ''up.example'', PInt 5432, PStr ''app'', PStr ''validator'', PStr ''secret''],
                Execute (Q (PStr ''SELECT count(*) FROM t'')) [], Close,
                Connect [PStr ''down.example'', PInt 5432, PStr ''app'', PStr ''validator'', PStr ''secret'']],
       log = [(Info, Connected), (Info, Banner),
              (Info, RunningCountCheck (PStr ''No description'')),
              (Info, QueryLine (PStr ''SELECT count(*) FROM t'')),
              (Info, OperatorValue (PStr ''>='') (PInt 1)),
              (Info, CheckPassed (PInt 1) (PStr ''>='') (PInt 1)),
              (Info, ConnectionClosed),
              (Error, FailedToConnect (DatabaseError ''connection refused''))]\<rparr>)"
proof -
  let ?w1 = "\<lparr>ext = 2,
       calls = [Connect [PStr ''up.example'', PInt 5432, PStr ''app'', PStr ''validator'', PStr ''secret''],
                Execute (Q (PStr ''SELECT count(*) FROM t'')) [], Close],
       log = [(Info, Connected), (Info, Banner),
              (Info, RunningCountCheck (PStr ''No description'')),
              (Info, QueryLine (PStr ''SELECT count(*) FROM t'')),
              (Info, OperatorValue (PStr ''>='') (PInt 1)),
              (Info, CheckPassed (PInt 1) (PStr ''>='') (PInt 1)),
              (Info, ConnectionClosed)]\<rparr> :: nat world"
  have a: "conn_args (connection (db_on ''down.example'')) =
     Inr [PStr ''down.example'', PInt 5432, PStr ''app'', PStr ''validator'', PStr ''secret'']"
    by (simp add: db_on_def conn_args_def conn_to_def dict_index_def)
  have f: "db_connect down_driver (ext ?w1)
     [PStr ''down.example'', PInt 5432, PStr ''app'', PStr ''validator'', PStr ''secret''] =
     (Inl (DatabaseError ''connection refused''), 3)"
    by (simp add: down_driver_def)
  show ?thesis
    using connection_failure_exits [OF main_up_example a f, of "[db_on ''up.example'']"]
      main_up_example a f
    by simp
qed

text \<open>
  C1 as stated fails: with two databases of which the first refuses the connection, the run
  ends with exit status 1 and the only call made to the driver is the refused connection.
\<close>

theorem connection_failure_aborts_run:
  "fst (main down_driver [db_on ''down.example'', db_on ''up.example''] world0) = Inl (Exit 1) \<and>
   calls (snd (main down_driver [db_on ''down.example'', db_on ''up.example''] world0)) =
     [Connect [PStr ''down.example'', PInt 5432, PStr ''app'', PStr ''validator'', PStr ''secret'']]"
  by (simp add: db_on_def create_connection_def connect_body_def conn_args_def conn_to_def
      dict_index_def down_driver_def world0_def error_def)

end
